theory Spec2Isabelle
  imports Complex_Main
begin

section \<open>Data model of the plugin controller (main.ts)\<close>

text \<open>
  JavaScript numbers that are only stored and passed on (coordinates, sizes, colour
  channels, opacities) are rationals. Font sizes are rendered into style names and
  group keys by template literals, so they are integers here, rendered in decimal as
  JavaScript renders an integer.
\<close>

type_synonym number = rat

record RGB =
  rgb_r :: number
  rgb_g :: number
  rgb_b :: number

record Paint =
  paint_type :: string
  paint_color :: RGB
  paint_opacity :: "number option"

record FontName =
  family :: string
  style :: string

text \<open>
  \<open>ColorData\<close>, \<open>TypographyData\<close> and \<open>ComponentData\<close> of main.ts. Optional
  fields (\<open>opacity?\<close>, \<open>fontName?\<close>, \<open>fontSize?\<close>, \<open>fills?\<close>, ...) are options.
  The component name is an option as well: the interface declares it a string, but the
  JSON path of the panel copies \<open>component.name\<close> unchecked and the fallback branch
  tests it with \<open>||\<close>.
\<close>

record ColorData =
  color_name :: string
  color :: RGB
  opacity :: "number option"

record TypographyData =
  typo_text :: string
  fontName :: "FontName option"
  fontSize :: "int option"
  text_x :: number
  text_y :: number
  text_width :: number
  text_height :: number

record ComponentData =
  comp_id :: string
  comp_type :: string
  name :: "string option"
  comp_x :: number
  comp_y :: number
  width :: number
  height :: number
  fills :: "Paint list option"
  strokes :: "Paint list option"
  children :: "string list option"
  properties :: "(string \<times> string) list option"

record ImageAnalysisResult =
  components :: "ComponentData list"
  colors :: "ColorData list"
  typography :: "TypographyData list"

subsection \<open>Scene nodes and styles of the host\<close>

record AutoLayout =
  layoutMode :: string
  counterAxisSizingMode :: string
  primaryAxisSizingMode :: string
  itemSpacing :: int
  padding :: "(int \<times> int \<times> int \<times> int) option"

text \<open>
  A scene node with the properties the controller sets on it. A property the
  controller leaves alone keeps the host's default, written \<open>None\<close>. Nodes are built
  once and appended once, so they are values; a frame holds its children in order.
\<close>

datatype node =
    Frame (frame_name: string) (frame_layout: AutoLayout) (frame_fills: "Paint list")
          (frame_children: "node list")
  | Text (text_fontName: "FontName option") (characters: string) (text_fontSize: int)
         (textAlignHorizontal: "string option") (textStyleId: "nat option")
  | Rectangle (rect_name: string) (rect_width: number) (rect_height: number)
              (rect_fills: "Paint list") (cornerRadius: int) (fillStyleId: nat)
  | Component (component_name: string) (component_width: number) (component_height: number)
              (component_fills: "Paint list option")
  | ComponentSet (set_name: string) (set_children: "node list")

datatype style =
    PaintStyle (style_id: nat) (style_name: string) (paints: "Paint list")
  | TextStyle (style_id: nat) (style_name: string) (style_fontName: "FontName option")
              (style_fontSize: "int option")

datatype log_entry =
    ConsoleError string string
  | ConsoleWarn string string
  | ConsoleLog string

datatype builder_call =
    CreateComponentSet "ComponentData list"
  | CreateSystemComponent ComponentData

datatype ui_message =
    CREATION_COMPLETE
  | CREATION_ERROR string

datatype timer_action = ClosePlugin

text \<open>
  The state the controller acts on: the host document (styles, page, selection,
  viewport), the messages posted to the panel, the console, the pending timers with
  their delay in milliseconds, whether the plugin has been closed, and the trace of
  calls made to ComponentBuilder.
\<close>

record world =
  styles :: "style list"
  next_id :: nat
  page :: "node list"
  selection :: "node list"
  viewport :: "node list"
  ui_messages :: "ui_message list"
  console :: "log_entry list"
  timers :: "(nat \<times> timer_action) list"
  plugin_closed :: bool
  calls :: "builder_call list"

text \<open>
  The collaborators that are not part of main.ts. Every awaited call may reject:
  \<open>figma.loadFontAsync\<close> and the two entry points of ComponentBuilder
  (component-builder.ts is not among the sources) return either an error message or
  their result. The synchronous constructors and setters of the host are total.
\<close>

record host =
  loadFontAsync :: "FontName \<Rightarrow> string + unit"
  createSystemComponent :: "ComponentData \<Rightarrow> string + node"
  createComponentSet :: "ComponentData list \<Rightarrow> string + node"

subsection \<open>Template literals\<close>

definition digit_char :: "nat \<Rightarrow> char" where
  "digit_char d = ''0123456789'' ! d"

fun digits :: "nat \<Rightarrow> string" where
  "digits n = (if n < 10 then [digit_char n] else digits (n div 10) @ [digit_char (n mod 10)])"

declare digits.simps [simp del]

definition string_of_int :: "int \<Rightarrow> string" where
  "string_of_int i = (if i < 0 then CHR ''-'' # digits (nat (- i)) else digits (nat i))"

section \<open>processImageAnalysisResults\<close>

definition Inter_Bold :: FontName where
  "Inter_Bold = \<lparr>family = ''Inter'', style = ''Bold''\<rparr>"

definition Inter_Regular :: FontName where
  "Inter_Regular = \<lparr>family = ''Inter'', style = ''Regular''\<rparr>"

definition section_layout :: "int \<Rightarrow> AutoLayout" where
  "section_layout spacing =
     \<lparr>layoutMode = ''VERTICAL'', counterAxisSizingMode = ''AUTO'',
      primaryAxisSizingMode = ''AUTO'', itemSpacing = spacing, padding = None\<rparr>"

definition title_node :: "string \<Rightarrow> node" where
  "title_node chars = Text (Some Inter_Bold) chars 16 None None"

text \<open>\<open>compData.name || `Component ${i+1}`\<close>: a missing or empty name gives the default.\<close>

definition fallback_name :: "ComponentData \<Rightarrow> nat \<Rightarrow> string" where
  "fallback_name compData i =
     (case name compData of
        None \<Rightarrow> ''Component '' @ digits (i + 1)
      | Some n \<Rightarrow> if n = [] then ''Component '' @ digits (i + 1) else n)"

definition fallbackComponent :: "ComponentData \<Rightarrow> nat \<Rightarrow> node" where
  "fallbackComponent compData i =
     Component (fallback_name compData i) (width compData) (height compData) (fills compData)"

text \<open>
  The loop \<open>for (let i = 0; i < imageData.components.length; i++)\<close> with its
  try/catch; the result is the list of children appended to the section, in order.
\<close>

fun build_each :: "host \<Rightarrow> nat \<Rightarrow> ComponentData list \<Rightarrow> world \<Rightarrow> node list \<times> world" where
  "build_each h i [] w = ([], w)"
| "build_each h i (c # cs) w =
     (let w1 = w\<lparr>calls := calls w @ [CreateSystemComponent c]\<rparr> in
      case createSystemComponent h c of
        Inr component \<Rightarrow>
          (let (ns, w2) = build_each h (Suc i) cs w1 in (component # ns, w2))
      | Inl err \<Rightarrow>
          (let w2 = w1\<lparr>console := console w1 @ [ConsoleError ''Error creating component:'' err]\<rparr>;
               (ns, w3) = build_each h (Suc i) cs w2
           in (fallbackComponent c i # ns, w3)))"

definition variant_heuristic :: "ComponentData list \<Rightarrow> bool" where
  "variant_heuristic cs \<longleftrightarrow> length cs > 1 \<and> name (cs ! 0) = name (cs ! 1)"

text \<open>
  The body of \<open>if (imageData.components.length > 0)\<close> after the title has been
  appended: the variant attempt, then the independent loop when \<open>hasVariants\<close> is
  false. It returns the children appended after the title.
\<close>

definition build_components :: "host \<Rightarrow> ComponentData list \<Rightarrow> world \<Rightarrow> node list \<times> world" where
  "build_components h cs w =
     (let (appended, hasVariants, w1) =
            (if variant_heuristic cs then
               (let w0 = w\<lparr>calls := calls w @ [CreateComponentSet cs]\<rparr> in
                case createComponentSet h cs of
                  Inr componentSet \<Rightarrow> ([componentSet], True, w0)
                | Inl err \<Rightarrow>
                    ([], False,
                     w0\<lparr>console := console w0 @ [ConsoleError ''Error creating component variants:'' err]\<rparr>))
             else ([], False, w))
      in if \<not> hasVariants then
           (let (ns, w2) = build_each h 0 cs w1 in (appended @ ns, w2))
         else (appended, w1))"

subsection \<open>Styles: lookup by name, creation\<close>

text \<open>
  \<open>figma.getStyleByName\<close> is declared in main.ts as returning a style or null; the
  registry is searched in creation order. \<open>createPaintStyle\<close> stands for the three
  statements \<open>style = figma.createPaintStyle(); style.name = styleName; style.paints =
  [paint]\<close>, which run without anything in between; the new style gets a fresh id.
\<close>

definition getStyleByName :: "world \<Rightarrow> string \<Rightarrow> style option" where
  "getStyleByName w styleName = find (\<lambda>s. style_name s = styleName) (styles w)"

definition register_style :: "(nat \<Rightarrow> style) \<Rightarrow> world \<Rightarrow> nat \<times> world" where
  "register_style mk w =
     (next_id w, w\<lparr>styles := styles w @ [mk (next_id w)], next_id := Suc (next_id w)\<rparr>)"

definition createPaintStyle :: "string \<Rightarrow> Paint list \<Rightarrow> world \<Rightarrow> nat \<times> world" where
  "createPaintStyle styleName ps w = register_style (\<lambda>i. PaintStyle i styleName ps) w"

definition createTextStyle ::
  "string \<Rightarrow> FontName option \<Rightarrow> int option \<Rightarrow> world \<Rightarrow> nat \<times> world" where
  "createTextStyle styleName f sz w = register_style (\<lambda>i. TextStyle i styleName f sz) w"

subsection \<open>Loops whose body may throw\<close>

text \<open>
  A \<open>for\<close> loop whose body appends nodes to a frame and may throw: the first error
  ends the loop and is the result, with the state reached so far.
\<close>

fun for_each ::
  "('a \<Rightarrow> world \<Rightarrow> (string + node list) \<times> world) \<Rightarrow> 'a list \<Rightarrow> world \<Rightarrow>
   (string + node list) \<times> world" where
  "for_each step [] w = (Inr [], w)"
| "for_each step (a # as) w =
     (case step a w of
        (Inl err, w1) \<Rightarrow> (Inl err, w1)
      | (Inr ns, w1) \<Rightarrow>
          (case for_each step as w1 of
             (Inl err, w2) \<Rightarrow> (Inl err, w2)
           | (Inr ms, w2) \<Rightarrow> (Inr (ns @ ms), w2)))"

text \<open>The title of a section: the text node is appended once its font has loaded.\<close>

definition make_title :: "host \<Rightarrow> string \<Rightarrow> string + node" where
  "make_title h chars =
     (case loadFontAsync h Inter_Bold of
        Inl err \<Rightarrow> Inl err
      | Inr _ \<Rightarrow> Inr (title_node chars))"

subsection \<open>1. The colour palette\<close>

text \<open>\<open>opacity: colorData.opacity || 1\<close>: a missing or zero opacity becomes 1.\<close>

definition solid_paint :: "ColorData \<Rightarrow> Paint" where
  "solid_paint colorData =
     \<lparr>paint_type = ''SOLID'', paint_color = color colorData,
      paint_opacity = Some (case opacity colorData of
                              None \<Rightarrow> 1
                            | Some a \<Rightarrow> if a = 0 then 1 else a)\<rparr>"

definition color_style_name :: "ColorData \<Rightarrow> string" where
  "color_style_name colorData = ''Color/'' @ color_name colorData"

text \<open>The lookup and the creation guarded by \<open>if (!style)\<close>; the result is \<open>style.id\<close>.\<close>

definition color_style :: "ColorData \<Rightarrow> world \<Rightarrow> nat \<times> world" where
  "color_style colorData w =
     (case getStyleByName w (color_style_name colorData) of
        Some st \<Rightarrow> (style_id st, w)
      | None \<Rightarrow> createPaintStyle (color_style_name colorData) [solid_paint colorData] w)"

definition swatch :: "ColorData \<Rightarrow> nat \<Rightarrow> node" where
  "swatch colorData sid = Rectangle (color_name colorData) 48 48 [solid_paint colorData] 4 sid"

definition color_label :: "ColorData \<Rightarrow> node" where
  "color_label colorData = Text None (color_name colorData) 11 (Some ''CENTER'') None"

definition color_wrapper :: "ColorData \<Rightarrow> nat \<Rightarrow> node" where
  "color_wrapper colorData sid =
     Frame (''Color-'' @ color_name colorData @ ''-Wrapper'') (section_layout 4) []
       [swatch colorData sid, color_label colorData]"

text \<open>One iteration of \<open>for (let i = 0; i < imageData.colors.length; i++)\<close>.\<close>

definition color_step :: "host \<Rightarrow> ColorData \<Rightarrow> world \<Rightarrow> (string + node list) \<times> world" where
  "color_step h colorData w =
     (let (sid, w1) = color_style colorData w in
      case loadFontAsync h Inter_Regular of
        Inl err \<Rightarrow> (Inl err, w1)
      | Inr _ \<Rightarrow> (Inr [color_wrapper colorData sid], w1))"

definition row_layout :: AutoLayout where
  "row_layout =
     \<lparr>layoutMode = ''HORIZONTAL'', counterAxisSizingMode = ''AUTO'',
      primaryAxisSizingMode = ''AUTO'', itemSpacing = 12, padding = None\<rparr>"

definition color_section :: "host \<Rightarrow> ColorData list \<Rightarrow> world \<Rightarrow> (string + node) \<times> world" where
  "color_section h cs w =
     (case make_title h ''Color Styles'' of
        Inl err \<Rightarrow> (Inl err, w)
      | Inr title \<Rightarrow>
          (case for_each (color_step h) cs w of
             (Inl err, w1) \<Rightarrow> (Inl err, w1)
           | (Inr wrappers, w1) \<Rightarrow>
               (Inr (Frame ''Color Palette'' (section_layout 16) []
                      [title, Frame ''Colors'' row_layout [] wrappers]), w1)))"

subsection \<open>2. Typography\<close>

text \<open>
  The key \<open>`${text.fontSize || 'unknown'}-${text.fontName?.family || 'unknown'}`\<close>:
  a missing or zero size and a missing or empty family are rendered \<open>unknown\<close>.
\<close>

definition size_key :: "TypographyData \<Rightarrow> string" where
  "size_key t =
     (case fontSize t of
        None \<Rightarrow> ''unknown''
      | Some n \<Rightarrow> if n = 0 then ''unknown'' else string_of_int n)"

definition family_key :: "TypographyData \<Rightarrow> string" where
  "family_key t =
     (case fontName t of
        None \<Rightarrow> ''unknown''
      | Some f \<Rightarrow> if family f = [] then ''unknown'' else family f)"

definition group_key :: "TypographyData \<Rightarrow> string" where
  "group_key t = size_key t @ ''-'' @ family_key t"

text \<open>
  \<open>textGroups\<close> is an object used as a dictionary. Its keys all contain a hyphen, so
  none is an array index and \<open>for (const key in textGroups)\<close> visits them in the
  order of insertion: an association list, new keys appended.
\<close>

type_synonym text_groups = "(string \<times> TypographyData list) list"

definition push_text :: "text_groups \<Rightarrow> TypographyData \<Rightarrow> text_groups" where
  "push_text textGroups t =
     (let key = group_key t;
          gs = (if map_of textGroups key = None then textGroups @ [(key, [])] else textGroups)
      in map (\<lambda>(k, ts). if k = key then (k, ts @ [t]) else (k, ts)) gs)"

definition group_texts :: "TypographyData list \<Rightarrow> text_groups" where
  "group_texts ts = foldl push_text [] ts"

definition sample_fontSize :: "TypographyData \<Rightarrow> int" where
  "sample_fontSize sample =
     (case fontSize sample of None \<Rightarrow> 16 | Some n \<Rightarrow> if n = 0 then 16 else n)"

definition sample_fontName :: "TypographyData \<Rightarrow> FontName" where
  "sample_fontName sample = (case fontName sample of None \<Rightarrow> Inter_Regular | Some f \<Rightarrow> f)"

definition text_style_name :: "TypographyData \<Rightarrow> string" where
  "text_style_name sample =
     ''Text/'' @ family (sample_fontName sample) @ ''-'' @ style (sample_fontName sample)
       @ ''/'' @ string_of_int (sample_fontSize sample) @ ''px''"

text \<open>
  The lookup and the creation guarded by \<open>if (!style)\<close>. The new style is created
  and named before its font is loaded: when the font fails to load, the style stays in
  the registry without font and size.
\<close>

definition text_style :: "host \<Rightarrow> TypographyData \<Rightarrow> world \<Rightarrow> (string + nat) \<times> world" where
  "text_style h sample w =
     (case getStyleByName w (text_style_name sample) of
        Some st \<Rightarrow> (Inr (style_id st), w)
      | None \<Rightarrow>
          (case loadFontAsync h (sample_fontName sample) of
             Inl err \<Rightarrow> (Inl err, snd (createTextStyle (text_style_name sample) None None w))
           | Inr _ \<Rightarrow>
               (let (sid, w1) = createTextStyle (text_style_name sample)
                                  (Some (sample_fontName sample)) (Some (sample_fontSize sample)) w
                in (Inr sid, w1))))"

definition sample_characters :: "TypographyData \<Rightarrow> string" where
  "sample_characters sample =
     (if typo_text sample = []
      then family (sample_fontName sample) @ '' '' @ string_of_int (sample_fontSize sample) @ ''px''
      else typo_text sample)"

definition sample_node :: "TypographyData \<Rightarrow> nat \<Rightarrow> node" where
  "sample_node sample sid =
     Text (Some (sample_fontName sample)) (sample_characters sample) (sample_fontSize sample)
       None (Some sid)"

text \<open>One iteration of \<open>for (const key in textGroups)\<close>.\<close>

definition group_step ::
  "host \<Rightarrow> string \<times> TypographyData list \<Rightarrow> world \<Rightarrow> (string + node list) \<times> world" where
  "group_step h kg w =
     (case snd kg of
        [] \<Rightarrow> (Inr [], w)
      | sample # _ \<Rightarrow>
          (case text_style h sample w of
             (Inl err, w1) \<Rightarrow> (Inl err, w1)
           | (Inr sid, w1) \<Rightarrow>
               (case loadFontAsync h (sample_fontName sample) of
                  Inl err \<Rightarrow> (Inl err, w1)
                | Inr _ \<Rightarrow> (Inr [sample_node sample sid], w1))))"

definition typography_section ::
  "host \<Rightarrow> TypographyData list \<Rightarrow> world \<Rightarrow> (string + node) \<times> world" where
  "typography_section h ts w =
     (case make_title h ''Text Styles'' of
        Inl err \<Rightarrow> (Inl err, w)
      | Inr title \<Rightarrow>
          (case for_each (group_step h) (group_texts ts) w of
             (Inl err, w1) \<Rightarrow> (Inl err, w1)
           | (Inr samples, w1) \<Rightarrow>
               (Inr (Frame ''Typography'' (section_layout 16) [] (title # samples)), w1)))"

subsection \<open>3. Components\<close>

definition components_section ::
  "host \<Rightarrow> ComponentData list \<Rightarrow> world \<Rightarrow> (string + node) \<times> world" where
  "components_section h cs w =
     (case make_title h ''UI Components'' of
        Inl err \<Rightarrow> (Inl err, w)
      | Inr title \<Rightarrow>
          (let (built, w1) = build_components h cs w
           in (Inr (Frame ''Components'' (section_layout 24) [] (title # built)), w1)))"

subsection \<open>The parent frame\<close>

definition parent_layout :: AutoLayout where
  "parent_layout =
     \<lparr>layoutMode = ''VERTICAL'', counterAxisSizingMode = ''AUTO'',
      primaryAxisSizingMode = ''AUTO'', itemSpacing = 24, padding = Some (32, 32, 32, 32)\<rparr>"

definition parent_fill :: Paint where
  "parent_fill =
     \<lparr>paint_type = ''SOLID'',
      paint_color = \<lparr>rgb_r = 98 / 100, rgb_g = 98 / 100, rgb_b = 98 / 100\<rparr>,
      paint_opacity = None\<rparr>"

text \<open>
  A section is built when its array is not empty (the arrays of a valid
  \<open>ImageAnalysisResult\<close> are present, so \<open>imageData.colors && ...\<close> is the length
  test alone).
\<close>

definition optional_section ::
  "bool \<Rightarrow> (world \<Rightarrow> (string + node) \<times> world) \<Rightarrow> world \<Rightarrow> (string + node list) \<times> world" where
  "optional_section present build w =
     (if present then
        (case build w of
           (Inl err, w1) \<Rightarrow> (Inl err, w1)
         | (Inr sec, w1) \<Rightarrow> (Inr [sec], w1))
      else (Inr [], w))"

definition processImageAnalysisResults ::
  "host \<Rightarrow> ImageAnalysisResult \<Rightarrow> world \<Rightarrow> (string + node) \<times> world" where
  "processImageAnalysisResults h imageData w =
     (case optional_section (length (colors imageData) > 0)
             (color_section h (colors imageData)) w of
        (Inl err, w1) \<Rightarrow> (Inl err, w1)
      | (Inr s1, w1) \<Rightarrow>
     (case optional_section (length (typography imageData) > 0)
             (typography_section h (typography imageData)) w1 of
        (Inl err, w2) \<Rightarrow> (Inl err, w2)
      | (Inr s2, w2) \<Rightarrow>
     (case optional_section (length (components imageData) > 0)
             (components_section h (components imageData)) w2 of
        (Inl err, w3) \<Rightarrow> (Inl err, w3)
      | (Inr s3, w3) \<Rightarrow>
          (let parentFrame = Frame ''Sticker Component Analysis'' parent_layout [parent_fill]
                               (s1 @ s2 @ s3)
           in (Inr parentFrame,
               w3\<lparr>page := page w3 @ [parentFrame], selection := [parentFrame],
                  viewport := [parentFrame]\<rparr>)))))"

section \<open>The handlers registered by the plugin's entry point\<close>

text \<open>
  \<open>once('IMAGE_ANALYSIS_COMPLETE', ...)\<close>: try, catch and finally. The timer set in
  \<open>finally\<close> is recorded with its delay; the handler itself does not close the plugin.
\<close>

definition on_IMAGE_ANALYSIS_COMPLETE :: "host \<Rightarrow> ImageAnalysisResult \<Rightarrow> world \<Rightarrow> world" where
  "on_IMAGE_ANALYSIS_COMPLETE h imageData w =
     (let w1 = (case processImageAnalysisResults h imageData w of
                  (Inr parentFrame, w') \<Rightarrow>
                    w'\<lparr>selection := [parentFrame],
                       ui_messages := ui_messages w' @ [CREATION_COMPLETE]\<rparr>
                | (Inl err, w') \<Rightarrow>
                    w'\<lparr>console := console w' @ [ConsoleError ''Error in image analysis handler:'' err],
                       ui_messages := ui_messages w' @
                         [CREATION_ERROR (''Error creating components: '' @ err)]\<rparr>)
      in w1\<lparr>timers := timers w1 @ [(2000, ClosePlugin)]\<rparr>)"

text \<open>\<open>once('CLOSE_PLUGIN', () => { figma.closePlugin(); })\<close>.\<close>

definition on_CLOSE_PLUGIN :: "world \<Rightarrow> world" where
  "on_CLOSE_PLUGIN w = w\<lparr>plugin_closed := True\<rparr>"

section \<open>The panel (ui.tsx)\<close>

subsection \<open>JavaScript values\<close>

text \<open>
  What \<open>JSON.parse\<close> returns and what the panel builds from it; a property that is
  absent reads as \<open>undefined\<close>. The fields of an object are an association list.
\<close>

datatype jsval =
    JUndefined
  | JNull
  | JBool bool
  | JNum rat
  | JStr string
  | JArr "jsval list"
  | JObj "(string \<times> jsval) list"

fun truthy :: "jsval \<Rightarrow> bool" where
  "truthy JUndefined = False"
| "truthy JNull = False"
| "truthy (JBool v) = v"
| "truthy (JNum n) = (n \<noteq> 0)"
| "truthy (JStr s) = (s \<noteq> [])"
| "truthy (JArr _) = True"
| "truthy (JObj _) = True"

definition js_or :: "jsval \<Rightarrow> jsval \<Rightarrow> jsval" where
  "js_or a c = (if truthy a then a else c)"

fun nullish :: "jsval \<Rightarrow> bool" where
  "nullish JUndefined = True"
| "nullish JNull = True"
| "nullish _ = False"

text \<open>
  \<open>v.p\<close> for the property names the panel reads (none of them is a built-in property
  of a string, a number, a boolean or an array): a TypeError on \<open>undefined\<close> and
  \<open>null\<close>, the field of an object, \<open>undefined\<close> otherwise.
\<close>

fun js_prop :: "jsval \<Rightarrow> string \<Rightarrow> jsval" where
  "js_prop (JObj kvs) p = (case map_of kvs p of None \<Rightarrow> JUndefined | Some v \<Rightarrow> v)"
| "js_prop _ p = JUndefined"

definition type_error_read :: "string \<Rightarrow> string" where
  "type_error_read p = ''Cannot read properties of undefined or null: '' @ p"

definition js_get :: "jsval \<Rightarrow> string \<Rightarrow> string + jsval" where
  "js_get v p = (if nullish v then Inl (type_error_read p) else Inr (js_prop v p))"

fun map_result :: "('a \<Rightarrow> string + 'b) \<Rightarrow> 'a list \<Rightarrow> string + 'b list" where
  "map_result f [] = Inr []"
| "map_result f (a # as) =
     (case f a of
        Inl err \<Rightarrow> Inl err
      | Inr c \<Rightarrow> (case map_result f as of Inl err \<Rightarrow> Inl err | Inr cs \<Rightarrow> Inr (c # cs)))"

text \<open>
  \<open>v.map(f)\<close>: only an array has a \<open>map\<close> method; on \<open>undefined\<close> and \<open>null\<close>
  the property read throws, on any other value the call does. The callback gets the
  element and its index.
\<close>

definition js_array_map :: "jsval \<Rightarrow> (nat \<times> jsval \<Rightarrow> string + jsval) \<Rightarrow> string + jsval" where
  "js_array_map v f =
     (case v of
        JArr elems \<Rightarrow>
          (case map_result f (enumerate 0 elems) of
             Inl err \<Rightarrow> Inl err
           | Inr mapped \<Rightarrow> Inr (JArr mapped))
      | JUndefined \<Rightarrow> Inl (type_error_read ''map'')
      | JNull \<Rightarrow> Inl (type_error_read ''map'')
      | _ \<Rightarrow> Inl ''map is not a function'')"

subsection \<open>State of the panel\<close>

datatype import_method = IMAGE | JSON

datatype tab = Upload | Settings | Help

record File =
  file_name :: string
  file_text :: "string option"
  file_data_url :: "string option"

datatype preview = DataUrl string | JpegBase64 jsval

datatype ui_event = IMAGE_ANALYSIS_COMPLETE jsval | CLOSE_PLUGIN

text \<open>
  The nine \<open>useState\<close> cells of \<open>Plugin\<close>, with the console of the panel and the
  events it has emitted to the controller. \<open>importedJsonData\<close> starts as \<open>null\<close>.
\<close>

record ui_state =
  apiKey :: string
  imageFile :: "File option"
  imagePreview :: "preview option"
  isProcessing :: bool
  error :: "string option"
  statusMessage :: string
  activeTab :: tab
  importedJsonData :: jsval
  importMethod :: import_method
  ui_console :: "log_entry list"
  emitted :: "ui_event list"

text \<open>
  What the panel calls and does not define: \<open>JSON.parse\<close> (a syntax error is its
  message), the file reader behind \<open>fileToBase64\<close>, the two service clients, and
  \<open>Math.random\<close> rendered in base 36 for the element at a given index.
\<close>

record services =
  JSON_parse :: "string \<Rightarrow> string + jsval"
  fileToBase64 :: "File \<Rightarrow> string + string"
  vision_analyzeImage :: "string \<Rightarrow> string + jsval"
  findSimilarComponents :: "jsval \<Rightarrow> string + jsval"
  random_suffix :: "nat \<Rightarrow> string"

subsection \<open>Import and validation\<close>

text \<open>
  The preview step shared by both import paths:
  \<open>if (data.imageAnalysis.originalImage) setImagePreview(...)\<close>, reached only when
  \<open>imageAnalysis\<close> is truthy.
\<close>

definition preview_from :: "jsval \<Rightarrow> ui_state \<Rightarrow> ui_state" where
  "preview_from data s =
     (let img = js_prop (js_prop data ''imageAnalysis'') ''originalImage''
      in if truthy img then s\<lparr>imagePreview := Some (JpegBase64 img)\<rparr> else s)"



definition is_space :: "char \<Rightarrow> bool" where
  "is_space c \<longleftrightarrow> c \<in> set [CHR '' '', CHR 0x09, CHR 0x0A, CHR 0x0B, CHR 0x0C, CHR 0x0D]"

definition trim :: "string \<Rightarrow> string" where
  "trim s = rev (dropWhile is_space (rev (dropWhile is_space s)))"

text \<open>
  \<open>processClipboardText\<close>. The test is a chain of \<open>&&\<close>, so no property is read
  from a falsy value and the only exception the \<open>try\<close> can see is the syntax error.
\<close>

definition valid_clipboard_data :: "jsval \<Rightarrow> bool" where
  "valid_clipboard_data clipboardData \<longleftrightarrow>
     truthy clipboardData \<and>
     truthy (js_prop clipboardData ''version'') \<and>
     truthy (js_prop clipboardData ''imageAnalysis'') \<and>
     (truthy (js_prop (js_prop clipboardData ''imageAnalysis'') ''colors'') \<or>
      truthy (js_prop (js_prop clipboardData ''imageAnalysis'') ''typography'') \<or>
      truthy (js_prop (js_prop clipboardData ''imageAnalysis'') ''components''))"

definition processClipboardText :: "services \<Rightarrow> string \<Rightarrow> ui_state \<Rightarrow> ui_state" where
  "processClipboardText sv txt s =
     (if txt = [] \<or> trim txt = [] then s\<lparr>error := Some ''No data found in clipboard''\<rparr>
      else
        (case JSON_parse sv txt of
           Inl msg \<Rightarrow>
             s\<lparr>error := Some ''No valid component data found in clipboard'',
               ui_console := ui_console s @ [ConsoleLog ''No valid component data in clipboard'']\<rparr>
         | Inr clipboardData \<Rightarrow>
             if valid_clipboard_data clipboardData then
               preview_from clipboardData
                 (s\<lparr>statusMessage :=
                      ''Component data detected! Click \"Create Components\" to proceed.'',
                    importedJsonData := clipboardData, importMethod := JSON,
                    error := Some []\<rparr>)
             else
               s\<lparr>error := Some ''The clipboard data is not in the expected format'',
                 ui_console := ui_console s @ [ConsoleLog ''Not valid component data format'']\<rparr>))"




subsection \<open>analyzeImage\<close>

text \<open>
  The three callbacks of the JSON path. Each reads properties of its element, which
  throws when the element is \<open>null\<close>; a property that is absent is copied as
  \<open>undefined\<close>.
\<close>

definition remap_color :: "nat \<times> jsval \<Rightarrow> string + jsval" where
  "remap_color ic =
     (let color = snd ic in
      if nullish color then Inl (type_error_read ''name'')
      else Inr (JObj
        [(''name'', js_prop color ''name''),
         (''color'', JObj [(''r'', js_prop color ''r''), (''g'', js_prop color ''g''),
                          (''b'', js_prop color ''b'')]),
         (''opacity'', js_or (js_prop color ''opacity'') (JNum 1))]))"

definition remap_text :: "nat \<times> jsval \<Rightarrow> string + jsval" where
  "remap_text it =
     (let t = snd it in
      if nullish t then Inl (type_error_read ''text'')
      else Inr (JObj
        [(''text'', js_prop t ''text''),
         (''fontSize'', js_prop t ''fontSize''),
         (''x'', js_prop t ''x''),
         (''y'', js_prop t ''y''),
         (''width'', js_prop t ''width''),
         (''height'', js_prop t ''height'')]))"

definition remap_component :: "services \<Rightarrow> nat \<times> jsval \<Rightarrow> string + jsval" where
  "remap_component sv ic =
     (let component = snd ic in
      if nullish component then Inl (type_error_read ''id'')
      else Inr (JObj
        [(''id'', js_or (js_prop component ''id'')
                    (JStr (''comp-'' @ random_suffix sv (fst ic)))),
         (''name'', js_prop component ''name''),
         (''type'', js_or (js_prop component ''type'') (JStr ''RECTANGLE'')),
         (''x'', js_prop component ''x''),
         (''y'', js_prop component ''y''),
         (''width'', js_prop component ''width''),
         (''height'', js_prop component ''height'')]))"

text \<open>
  The \<open>else\<close> branch that builds \<open>analysisResult\<close> from
  \<open>importedJsonData.imageAnalysis\<close>; the three \<open>map\<close> calls run in the order of the
  object literal and the first exception leaves the branch.
\<close>

definition remap_json :: "services \<Rightarrow> jsval \<Rightarrow> string + jsval" where
  "remap_json sv imported =
     (case js_get imported ''imageAnalysis'' of
        Inl err \<Rightarrow> Inl err
      | Inr jsonData \<Rightarrow>
     (case js_get jsonData ''colors'' of
        Inl err \<Rightarrow> Inl err
      | Inr cs \<Rightarrow>
     (case js_array_map cs remap_color of
        Inl err \<Rightarrow> Inl err
      | Inr colors' \<Rightarrow>
     (case js_array_map (js_prop jsonData ''typography'') remap_text of
        Inl err \<Rightarrow> Inl err
      | Inr typography' \<Rightarrow>
     (case js_array_map (js_prop jsonData ''components'') (remap_component sv) of
        Inl err \<Rightarrow> Inl err
      | Inr components' \<Rightarrow>
          Inr (JObj [(''colors'', colors'), (''typography'', typography'),
                     (''components'', components')]))))))"

text \<open>The first branch of the \<open>try\<close>: the image is encoded and sent to the vision service.\<close>

definition analyze_upload :: "services \<Rightarrow> File option \<Rightarrow> string + jsval" where
  "analyze_upload sv f =
     (case f of
        None \<Rightarrow> Inl (type_error_read ''file'')
      | Some img \<Rightarrow>
          (case fileToBase64 sv img of
             Inl err \<Rightarrow> Inl err
           | Inr base64Image \<Rightarrow> vision_analyzeImage sv base64Image))"

text \<open>
  The optional enrichment, in its own \<open>try\<close>: the result of
  \<open>findSimilarComponents\<close> is only logged, and so is its error. The service gets
  \<open>analysisResult\<close> and is taken not to modify it.
\<close>

definition enrich :: "services \<Rightarrow> jsval \<Rightarrow> ui_state \<Rightarrow> ui_state" where
  "enrich sv analysisResult s =
     (case findSimilarComponents sv analysisResult of
        Inr similarComponents \<Rightarrow>
          s\<lparr>ui_console := ui_console s @ [ConsoleLog ''Found similar components:'']\<rparr>
      | Inl figmaError \<Rightarrow>
          s\<lparr>ui_console := ui_console s @
               [ConsoleWarn ''Figma API error (non-critical):'' figmaError]\<rparr>)"

definition analyzeImage :: "services \<Rightarrow> ui_state \<Rightarrow> ui_state" where
  "analyzeImage sv s =
     (if importMethod s = IMAGE \<and> imageFile s = None
      then s\<lparr>error := Some ''Please select an image first.''\<rparr>
      else if importMethod s = JSON \<and> \<not> truthy (importedJsonData s)
      then s\<lparr>error := Some ''Please import a JSON file first.''\<rparr>
      else
        (let s1 = s\<lparr>isProcessing := True, error := None\<rparr> in
         case (if importMethod s = IMAGE then analyze_upload sv (imageFile s)
               else remap_json sv (importedJsonData s)) of
           Inl msg \<Rightarrow>
             s1\<lparr>error := Some (''Error analyzing image: '' @ msg), isProcessing := False\<rparr>
         | Inr analysisResult \<Rightarrow>
             (let s2 = enrich sv analysisResult s1
              in s2\<lparr>emitted := emitted s2 @ [IMAGE_ANALYSIS_COMPLETE analysisResult],
                    statusMessage := ''Image analyzed successfully!'',
                    isProcessing := False\<rparr>)))"

definition handleClose :: "ui_state \<Rightarrow> ui_state" where
  "handleClose s = s\<lparr>emitted := emitted s @ [CLOSE_PLUGIN]\<rparr>"

section \<open>Closed forms used in the statements\<close>

text \<open>
  The children the independent loop appends, in closed form: the built node, or the
  fallback component where the builder failed.
\<close>

definition independent_children :: "host \<Rightarrow> ComponentData list \<Rightarrow> node list" where
  "independent_children h cs =
     map (\<lambda>(i, c). case createSystemComponent h c of
                      Inr n \<Rightarrow> n
                    | Inl e \<Rightarrow> fallbackComponent c i) (enumerate 0 cs)"

text \<open>
  The part of the state that building the scene does not touch: the messages to the
  panel, the timers and the closed flag.
\<close>

definition untouched :: "world \<Rightarrow> (ui_message list \<times> (nat \<times> timer_action) list \<times> bool)" where
  "untouched w = (ui_messages w, timers w, plugin_closed w)"

section \<open>Sample inputs\<close>

text \<open>Concrete hosts, states and inputs on which the properties below are instantiated.\<close>

definition empty_world :: world where
  "empty_world =
     \<lparr>styles = [], next_id = 0, page = [], selection = [], viewport = [], ui_messages = [],
      console = [], timers = [], plugin_closed = False, calls = []\<rparr>"

definition demo_component :: "string \<Rightarrow> string \<Rightarrow> ComponentData" where
  "demo_component i n =
     \<lparr>comp_id = i, comp_type = ''FRAME'', name = Some n, comp_x = 0, comp_y = 0,
      width = 120, height = 40, fills = None, strokes = None, children = None,
      properties = None\<rparr>"

text \<open>
  A host on which every font loads, the component builder fails on the component with
  id \<open>bad\<close>, and the variant-set builder always fails.
\<close>

definition demo_host :: host where
  "demo_host =
     \<lparr>loadFontAsync = (\<lambda>f. Inr ()),
      createSystemComponent =
        (\<lambda>c. if comp_id c = ''bad'' then Inl ''builder failed''
             else Inr (Component (comp_id c) (width c) (height c) None)),
      createComponentSet = (\<lambda>cs. Inl ''variants failed'')\<rparr>"

definition batch5 :: "ComponentData list" where
  "batch5 = [demo_component ''a'' ''Button'', demo_component ''b'' ''Card'',
             demo_component ''bad'' ''Badge'', demo_component ''d'' ''Input'',
             demo_component ''e'' ''Toggle'']"

definition btn_btn_card :: "ComponentData list" where
  "btn_btn_card = [demo_component ''a'' ''Btn'', demo_component ''b'' ''Btn'',
                   demo_component ''c'' ''Card'']"

text \<open>A host on which no font loads.\<close>

definition fontless_host :: host where
  "fontless_host =
     \<lparr>loadFontAsync = (\<lambda>f. Inl ''font not available''),
      createSystemComponent = (\<lambda>c. Inl ''builder failed''),
      createComponentSet = (\<lambda>cs. Inl ''variants failed'')\<rparr>"

definition demo_color :: "string \<Rightarrow> number \<Rightarrow> ColorData" where
  "demo_color n red = \<lparr>color_name = n, color = \<lparr>rgb_r = red, rgb_g = 0, rgb_b = 0\<rparr>, opacity = None\<rparr>"

definition one_color :: ImageAnalysisResult where
  "one_color = \<lparr>components = [], colors = [demo_color ''primary'' 1], typography = []\<rparr>"

definition initial_ui :: ui_state where
  "initial_ui =
     \<lparr>apiKey = [], imageFile = None, imagePreview = None, isProcessing = False,
      error = None, statusMessage = [], activeTab = Upload, importedJsonData = JNull,
      importMethod = IMAGE, ui_console = [], emitted = []\<rparr>"

text \<open>A payload with a version and colours only, and one without \<open>imageAnalysis\<close>.\<close>

definition colors_only_payload :: jsval where
  "colors_only_payload =
     JObj [(''version'', JStr ''1.0''),
           (''imageAnalysis'', JObj [(''colors'', JArr [])])]"

definition no_analysis_payload :: jsval where
  "no_analysis_payload = JObj [(''version'', JStr ''1.0'')]"

definition full_payload :: jsval where
  "full_payload =
     JObj [(''version'', JStr ''1.0''),
           (''imageAnalysis'',
            JObj [(''colors'', JArr [JObj [(''name'', JStr ''primary''), (''r'', JNum 1),
                                          (''g'', JNum 0), (''b'', JNum 0)]]),
                  (''typography'', JArr []),
                  (''components'', JArr [])])]"

text \<open>
  Services whose parser knows three texts, whose vision service answers with an empty
  analysis, and whose search for similar components fails.
\<close>

definition demo_services :: services where
  "demo_services =
     \<lparr>JSON_parse =
        (\<lambda>txt. if txt = ''{\"version\":\"1.0\",\"imageAnalysis\":{\"colors\":[]}}''
               then Inr colors_only_payload
               else if txt = ''{\"version\":\"1.0\"}'' then Inr no_analysis_payload
               else if txt = ''full'' then Inr full_payload
               else Inl ''Unexpected token''),
      fileToBase64 = (\<lambda>f. Inr ''data:image/png;base64,AAAA''),
      vision_analyzeImage =
        (\<lambda>img. Inr (JObj [(''colors'', JArr []), (''typography'', JArr []),
                          (''components'', JArr [])])),
      findSimilarComponents = (\<lambda>a. Inl ''403 Forbidden''),
      random_suffix = (\<lambda>i. ''k3j9x0q1z'')\<rparr>"



text \<open>Two colours that share the name \<open>primary\<close> with different values, and a third.\<close>

definition three_colors :: "ColorData list" where
  "three_colors = [demo_color ''primary'' 1, demo_color ''primary'' (1 / 2), demo_color ''accent'' 0]"




text \<open>An analysis with three colours, no text and the components \<open>Btn, Btn, Card\<close>.\<close>

definition demo_analysis :: ImageAnalysisResult where
  "demo_analysis = \<lparr>components = btn_btn_card, colors = three_colors, typography = []\<rparr>"

section \<open>Properties of the components section\<close>

lemma build_each_result:
  "build_each h i cs w =
     (map (\<lambda>(j, c). case createSystemComponent h c of
                      Inr n \<Rightarrow> n
                    | Inl e \<Rightarrow> fallbackComponent c j) (enumerate i cs),
      w\<lparr>calls := calls w @ map CreateSystemComponent cs,
        console := console w @
          concat (map (\<lambda>c. case createSystemComponent h c of
                              Inr n \<Rightarrow> []
                            | Inl e \<Rightarrow> [ConsoleError ''Error creating component:'' e]) cs)\<rparr>)"
  by (induction cs arbitrary: i w) (auto split: sum.splits prod.splits)

lemma build_components_independent:
  "variant_heuristic cs \<longrightarrow> isl (createComponentSet h cs) \<Longrightarrow>
   fst (build_components h cs w) = independent_children h cs"
  by (auto simp: build_components_def build_each_result independent_children_def Let_def
      split: sum.splits)

lemma build_components_calls:
  "calls (snd (build_components h cs w)) =
     calls w @
     (if variant_heuristic cs
      then CreateComponentSet cs #
           (case createComponentSet h cs of
              Inr n \<Rightarrow> []
            | Inl e \<Rightarrow> map CreateSystemComponent cs)
      else map CreateSystemComponent cs)"
  by (auto simp: build_components_def build_each_result Let_def split: sum.splits)

lemma independent_children_length: "length (independent_children h cs) = length cs"
  by (simp add: independent_children_def)

lemma independent_children_nth:
  "i < length cs \<Longrightarrow>
   independent_children h cs ! i =
     (case createSystemComponent h (cs ! i) of
        Inr n \<Rightarrow> n
      | Inl e \<Rightarrow> fallbackComponent (cs ! i) i)"
  by (simp add: independent_children_def nth_enumerate_eq)

lemma components_section_ok:
  "loadFontAsync h Inter_Bold = Inr () \<Longrightarrow>
   components_section h cs w =
     (Inr (Frame ''Components'' (section_layout 24) []
            (title_node ''UI Components'' # fst (build_components h cs w))),
      snd (build_components h cs w))"
  by (simp add: components_section_def make_title_def split: prod.splits)

text \<open>
  C2. On the independent path (the heuristic does not fire, or the variant set could
  not be built) the components section is the title followed by exactly one child per
  component, in order: the node the builder returned, or, where the builder threw, a
  fallback component with the element's width and height, its fills when present, and
  its name; a name that is missing (or empty, which \<open>||\<close> treats alike) is replaced
  by \<open>Component i+1\<close>. The loop never stops early.
\<close>

theorem independent_build_one_child_per_component:
  assumes "loadFontAsync h Inter_Bold = Inr ()"
    and "variant_heuristic cs \<longrightarrow> isl (createComponentSet h cs)"
  shows "\<exists>built w'.
           components_section h cs w =
             (Inr (Frame ''Components'' (section_layout 24) []
                    (title_node ''UI Components'' # built)), w') \<and>
           length built = length cs \<and>
           (\<forall>i<length cs.
              built ! i =
                (case createSystemComponent h (cs ! i) of
                   Inr component \<Rightarrow> component
                 | Inl err \<Rightarrow>
                     Component
                       (case name (cs ! i) of
                          None \<Rightarrow> ''Component '' @ digits (i + 1)
                        | Some n \<Rightarrow> if n = [] then ''Component '' @ digits (i + 1) else n)
                       (width (cs ! i)) (height (cs ! i)) (fills (cs ! i))))"
proof -
  have "fst (build_components h cs w) = independent_children h cs"
    using assms(2) by (rule build_components_independent)
  then show ?thesis
    using assms(1)
    by (auto simp: components_section_ok independent_children_length independent_children_nth
        fallbackComponent_def fallback_name_def split: sum.splits)
qed

text \<open>
  A batch of five in which the third build fails: five children, the third the
  fallback named after its element, the others the built nodes.
\<close>

theorem independent_build_one_child_per_component_witness:
  "loadFontAsync demo_host Inter_Bold = Inr () \<and>
   \<not> variant_heuristic batch5 \<and>
   (\<exists>built w'.
      components_section demo_host batch5 empty_world =
        (Inr (Frame ''Components'' (section_layout 24) []
               (title_node ''UI Components'' # built)), w') \<and>
      length built = 5 \<and>
      built ! 2 = Component ''Badge'' 120 40 None \<and>
      built ! 3 = Component ''d'' 120 40 None)"
proof -
  have a: "loadFontAsync demo_host Inter_Bold = Inr ()"
    by (simp add: demo_host_def)
  have v: "\<not> variant_heuristic batch5"
    by (simp add: variant_heuristic_def batch5_def demo_component_def)
  then have c: "variant_heuristic batch5 \<longrightarrow> isl (createComponentSet demo_host batch5)"
    by simp
  from independent_build_one_child_per_component [OF a c, of empty_world]
  obtain built w' where
    s: "components_section demo_host batch5 empty_world =
          (Inr (Frame ''Components'' (section_layout 24) []
                 (title_node ''UI Components'' # built)), w')"
    and l: "length built = length batch5"
    and n: "\<forall>i<length batch5. built ! i =
                (case createSystemComponent demo_host (batch5 ! i) of
                   Inr component \<Rightarrow> component
                 | Inl err \<Rightarrow>
                     Component
                       (case name (batch5 ! i) of
                          None \<Rightarrow> ''Component '' @ digits (i + 1)
                        | Some n \<Rightarrow> if n = [] then ''Component '' @ digits (i + 1) else n)
                       (width (batch5 ! i)) (height (batch5 ! i)) (fills (batch5 ! i)))"
    by blast
  have l5: "length batch5 = 5" by (simp add: batch5_def)
  have "built ! 2 = Component ''Badge'' 120 40 None"
    using n [rule_format, of 2] by (simp add: batch5_def demo_host_def demo_component_def)
  moreover have "built ! 3 = Component ''d'' 120 40 None"
    using n [rule_format, of 3] by (simp add: batch5_def demo_host_def demo_component_def)
  ultimately show ?thesis using a v s l l5 by auto
qed

text \<open>
  C3. The trace of builder calls made by the components section: the variant-set
  builder is called exactly when the list has at least two elements and the first two
  names are equal, and then with the whole list, whatever the later names are; when
  it is not called, every component goes through the per-component builder, in order
  (which is also what happens after the variant-set builder has failed).
\<close>

theorem variant_path_iff_first_two_names_equal:
  "calls (snd (build_components h cs w)) =
     calls w @
     (if 2 \<le> length cs \<and> name (cs ! 0) = name (cs ! 1)
      then CreateComponentSet cs #
           (case createComponentSet h cs of
              Inr componentSet \<Rightarrow> []
            | Inl err \<Rightarrow> map CreateSystemComponent cs)
      else map CreateSystemComponent cs) \<and>
   ((\<exists>arg. CreateComponentSet arg \<in> set (drop (length (calls w))
                                            (calls (snd (build_components h cs w))))) \<longleftrightarrow>
    2 \<le> length cs \<and> name (cs ! 0) = name (cs ! 1)) \<and>
   fst (build_components h cs w) =
     (if 2 \<le> length cs \<and> name (cs ! 0) = name (cs ! 1)
      then (case createComponentSet h cs of
              Inr componentSet \<Rightarrow> [componentSet]
            | Inl err \<Rightarrow> independent_children h cs)
      else independent_children h cs)"
proof -
  have v: "variant_heuristic cs \<longleftrightarrow> 2 \<le> length cs \<and> name (cs ! 0) = name (cs ! 1)"
    by (auto simp: variant_heuristic_def)
  have a: "calls (snd (build_components h cs w)) =
     calls w @
     (if 2 \<le> length cs \<and> name (cs ! 0) = name (cs ! 1)
      then CreateComponentSet cs #
           (case createComponentSet h cs of
              Inr componentSet \<Rightarrow> []
            | Inl err \<Rightarrow> map CreateSystemComponent cs)
      else map CreateSystemComponent cs)"
    using build_components_calls [of h cs w] v by simp
  have b: "(\<exists>arg. CreateComponentSet arg \<in> set (drop (length (calls w))
                                            (calls (snd (build_components h cs w))))) \<longleftrightarrow>
    2 \<le> length cs \<and> name (cs ! 0) = name (cs ! 1)"
    unfolding a by (auto split: sum.splits)
  have c: "fst (build_components h cs w) =
     (if 2 \<le> length cs \<and> name (cs ! 0) = name (cs ! 1)
      then (case createComponentSet h cs of
              Inr componentSet \<Rightarrow> [componentSet]
            | Inl err \<Rightarrow> independent_children h cs)
      else independent_children h cs)"
    using v
    by (auto simp: build_components_def build_each_result independent_children_def Let_def
        split: sum.splits)
  from a b c show ?thesis by blast
qed

text \<open>
  The list \<open>Btn, Btn, Card\<close>: the first two names match, so the variant-set builder
  gets all three elements; it fails on the sample host, and the three are then built
  one by one.
\<close>

theorem variant_path_iff_first_two_names_equal_witness:
  "calls (snd (build_components demo_host btn_btn_card empty_world)) =
     CreateComponentSet btn_btn_card # map CreateSystemComponent btn_btn_card"
  using variant_path_iff_first_two_names_equal [of demo_host btn_btn_card empty_world]
  by (simp add: btn_btn_card_def demo_component_def demo_host_def empty_world_def)

section \<open>Properties of the handlers\<close>

lemma for_each_untouched:
  assumes "\<And>a w. untouched (snd (step a w)) = untouched w"
  shows "untouched (snd (for_each step as w)) = untouched w"
proof (induction as arbitrary: w)
  case Nil
  show ?case by simp
next
  case (Cons a as)
  show ?case
    using assms [of a w] Cons.IH [of "snd (step a w)"]
    by (auto split: prod.splits sum.splits)
qed

lemma color_step_untouched: "untouched (snd (color_step h c w)) = untouched w"
  by (auto simp: untouched_def color_step_def color_style_def createPaintStyle_def
      register_style_def Let_def case_prod_unfold split: option.splits sum.splits)

lemma group_step_untouched: "untouched (snd (group_step h kg w)) = untouched w"
  by (auto simp: untouched_def group_step_def text_style_def createTextStyle_def
      register_style_def Let_def case_prod_unfold split: option.splits sum.splits list.splits)

lemma color_section_untouched: "untouched (snd (color_section h cs w)) = untouched w"
  using for_each_untouched [of "color_step h" cs w, OF color_step_untouched]
  by (auto simp: color_section_def split: sum.splits prod.splits)

lemma typography_section_untouched: "untouched (snd (typography_section h ts w)) = untouched w"
  using for_each_untouched [of "group_step h" "group_texts ts" w, OF group_step_untouched]
  by (auto simp: typography_section_def split: sum.splits prod.splits)

lemma build_components_untouched: "untouched (snd (build_components h cs w)) = untouched w"
  by (auto simp: build_components_def build_each_result untouched_def Let_def split: sum.splits)

lemma components_section_untouched: "untouched (snd (components_section h cs w)) = untouched w"
  using build_components_untouched [of h cs w]
  by (auto simp: components_section_def split: sum.splits prod.splits)

lemma optional_section_untouched:
  "(\<And>w. untouched (snd (build w)) = untouched w) \<Longrightarrow>
   untouched (snd (optional_section present build w)) = untouched w"
  by (auto simp: optional_section_def split: sum.splits prod.splits) (metis snd_conv)+

lemma process_untouched:
  "untouched (snd (processImageAnalysisResults h d w)) = untouched w"
proof -
  let ?o1 = "optional_section (length (colors d) > 0) (color_section h (colors d)) w"
  let ?o2 = "optional_section (length (typography d) > 0)
               (typography_section h (typography d)) (snd ?o1)"
  let ?o3 = "optional_section (length (components d) > 0)
               (components_section h (components d)) (snd ?o2)"
  have 1: "untouched (snd ?o1) = untouched w"
    by (rule optional_section_untouched) (rule color_section_untouched)
  have 2: "untouched (snd ?o2) = untouched (snd ?o1)"
    by (rule optional_section_untouched) (rule typography_section_untouched)
  have 3: "untouched (snd ?o3) = untouched (snd ?o2)"
    by (rule optional_section_untouched) (rule components_section_untouched)
  have "untouched (snd (processImageAnalysisResults h d w)) =
          (case fst ?o1 of Inl e \<Rightarrow> untouched (snd ?o1)
           | Inr s1 \<Rightarrow> (case fst ?o2 of Inl e \<Rightarrow> untouched (snd ?o2)
              | Inr s2 \<Rightarrow> untouched (snd ?o3)))"
    by (simp add: processImageAnalysisResults_def Let_def untouched_def case_prod_unfold
        split: sum.splits)
  with 1 2 3 show ?thesis by (simp split: sum.splits)
qed

text \<open>
  C10, as stated, fails for the CLOSE_PLUGIN message: its handler calls
  \<open>figma.closePlugin\<close> at once and sets no timer.
\<close>

theorem close_plugin_is_immediate_counterexample:
  "plugin_closed (on_CLOSE_PLUGIN empty_world) \<and> timers (on_CLOSE_PLUGIN empty_world) = [] \<and>
   \<not> plugin_closed empty_world"
  by (simp add: on_CLOSE_PLUGIN_def empty_world_def)

text \<open>
  C10, amended. The IMAGE_ANALYSIS_COMPLETE handler, whether the construction
  succeeded or threw, does not close the plugin itself: it posts CREATION_COMPLETE or
  CREATION_ERROR and sets one timer that closes the plugin after 2000 ms. The
  CLOSE_PLUGIN handler closes the plugin immediately and sets no timer.
\<close>

theorem teardown_is_delayed_only_after_analysis:
  "timers (on_IMAGE_ANALYSIS_COMPLETE h d w) = timers w @ [(2000, ClosePlugin)] \<and>
   plugin_closed (on_IMAGE_ANALYSIS_COMPLETE h d w) = plugin_closed w \<and>
   ui_messages (on_IMAGE_ANALYSIS_COMPLETE h d w) =
     ui_messages w @
       [case fst (processImageAnalysisResults h d w) of
          Inr parentFrame \<Rightarrow> CREATION_COMPLETE
        | Inl err \<Rightarrow> CREATION_ERROR (''Error creating components: '' @ err)] \<and>
   plugin_closed (on_CLOSE_PLUGIN w) \<and> timers (on_CLOSE_PLUGIN w) = timers w"
  using process_untouched [of h d w]
  by (auto simp: on_IMAGE_ANALYSIS_COMPLETE_def on_CLOSE_PLUGIN_def untouched_def Let_def
      split: prod.splits sum.splits)

text \<open>On a host where no font loads the construction throws; the timer is set all the same.\<close>

theorem teardown_is_delayed_only_after_analysis_witness:
  "timers (on_IMAGE_ANALYSIS_COMPLETE fontless_host one_color empty_world) = [(2000, ClosePlugin)] \<and>
   \<not> plugin_closed (on_IMAGE_ANALYSIS_COMPLETE fontless_host one_color empty_world) \<and>
   ui_messages (on_IMAGE_ANALYSIS_COMPLETE fontless_host one_color empty_world) =
     [CREATION_ERROR ''Error creating components: font not available'']"
  using teardown_is_delayed_only_after_analysis [of fontless_host one_color empty_world]
  by (simp add: empty_world_def processImageAnalysisResults_def optional_section_def
      color_section_def make_title_def fontless_host_def one_color_def)

section \<open>Properties of the panel\<close>

text \<open>
  C9. When the run has passed its guards and has an analysis result (from the vision
  service or from the imported JSON) and \<open>findSimilarComponents\<close> throws, the error
  is only written to the console as a warning: IMAGE_ANALYSIS_COMPLETE is emitted with
  that same analysis result, no error is shown, and the run ends as a success.
\<close>

theorem enrichment_failure_is_not_fatal:
  assumes "\<not> (importMethod s = IMAGE \<and> imageFile s = None)"
    and "\<not> (importMethod s = JSON \<and> \<not> truthy (importedJsonData s))"
    and "(if importMethod s = IMAGE then analyze_upload sv (imageFile s)
          else remap_json sv (importedJsonData s)) = Inr analysisResult"
    and "findSimilarComponents sv analysisResult = Inl figmaError"
  shows "analyzeImage sv s =
           s\<lparr>isProcessing := False, error := None,
             statusMessage := ''Image analyzed successfully!'',
             ui_console := ui_console s @
               [ConsoleWarn ''Figma API error (non-critical):'' figmaError],
             emitted := emitted s @ [IMAGE_ANALYSIS_COMPLETE analysisResult]\<rparr>"
  using assms by (auto simp: analyzeImage_def enrich_def Let_def)

text \<open>The complete payload on services whose search for similar components fails.\<close>

theorem enrichment_failure_is_not_fatal_witness:
  "emitted (analyzeImage demo_services (initial_ui\<lparr>importedJsonData := full_payload, importMethod := JSON\<rparr>)) =
     [IMAGE_ANALYSIS_COMPLETE
        (JObj [(''colors'',
                JArr [JObj [(''name'', JStr ''primary''),
                            (''color'', JObj [(''r'', JNum 1), (''g'', JNum 0), (''b'', JNum 0)]),
                            (''opacity'', JNum 1)]]),
               (''typography'', JArr []), (''components'', JArr [])])]"
proof -
  let ?s = "initial_ui\<lparr>importedJsonData := full_payload, importMethod := JSON\<rparr>"
  let ?a = "JObj [(''colors'',
                JArr [JObj [(''name'', JStr ''primary''),
                            (''color'', JObj [(''r'', JNum 1), (''g'', JNum 0), (''b'', JNum 0)]),
                            (''opacity'', JNum 1)]]),
               (''typography'', JArr []), (''components'', JArr [])]"
  have 1: "\<not> (importMethod ?s = IMAGE \<and> imageFile ?s = None)" by simp
  have 2: "\<not> (importMethod ?s = JSON \<and> \<not> truthy (importedJsonData ?s))"
    by (simp add: full_payload_def)
  have 3: "(if importMethod ?s = IMAGE then analyze_upload demo_services (imageFile ?s)
          else remap_json demo_services (importedJsonData ?s)) = Inr ?a"
    by (simp add: full_payload_def remap_json_def js_get_def js_array_map_def remap_color_def
        js_or_def enumerate_eq_zip)
  have 4: "findSimilarComponents demo_services ?a = Inl ''403 Forbidden''"
    by (simp add: demo_services_def)
  show ?thesis
    using enrichment_failure_is_not_fatal [OF 1 2 3 4] by (simp add: initial_ui_def)
qed

text \<open>
  C7. A payload with \<open>version\<close> and \<open>imageAnalysis.colors\<close> only passes the
  clipboard validation and is stored as the imported data; \<open>analyzeImage\<close> then
  throws in \<open>jsonData.typography.map\<close>, reports
  \<open>Error analyzing image: ...\<close> and emits nothing.
\<close>

theorem accepted_payload_fails_in_remap:
  "valid_clipboard_data colors_only_payload \<and>
   remap_json sv colors_only_payload = Inl (type_error_read ''map'') \<and>
   importedJsonData (processClipboardText demo_services
      ''{\"version\":\"1.0\",\"imageAnalysis\":{\"colors\":[]}}'' initial_ui) = colors_only_payload \<and>
   emitted (analyzeImage demo_services (processClipboardText demo_services
      ''{\"version\":\"1.0\",\"imageAnalysis\":{\"colors\":[]}}'' initial_ui)) = [] \<and>
   error (analyzeImage demo_services (processClipboardText demo_services
      ''{\"version\":\"1.0\",\"imageAnalysis\":{\"colors\":[]}}'' initial_ui)) =
     Some (''Error analyzing image: '' @ type_error_read ''map'')"
  by (simp add: valid_clipboard_data_def colors_only_payload_def remap_json_def js_get_def
      js_array_map_def processClipboardText_def demo_services_def initial_ui_def trim_def
      is_space_def preview_from_def analyzeImage_def)




section \<open>Properties of the style registry and the colour palette\<close>






lemma color_step_result:
  "fst (color_step h c w) =
     (case loadFontAsync h Inter_Regular of
        Inl err \<Rightarrow> Inl err
      | Inr u \<Rightarrow> Inr [color_wrapper c
           (case getStyleByName w (color_style_name c) of
              Some st \<Rightarrow> style_id st | None \<Rightarrow> next_id w)])"
  by (auto simp: color_step_def color_style_def createPaintStyle_def register_style_def
      split: option.splits sum.splits prod.splits)











lemma for_each_ok:
  assumes "\<And>a w. a \<in> set as \<Longrightarrow> \<exists>ns. fst (step a w) = Inr ns"
  shows "\<exists>ns. fst (for_each step as w) = Inr ns"
  using assms
proof (induction as arbitrary: w)
  case Nil
  show ?case by simp
next
  case (Cons a as)
  obtain r w1 where s1: "step a w = (r, w1)" by (cases "step a w")
  from Cons.prems [of a w] s1 obtain ns where r: "r = Inr ns" by auto
  from Cons.IH [of w1] Cons.prems obtain ms where "fst (for_each step as w1) = Inr ms"
    by auto
  with s1 r show ?case by (auto split: prod.splits sum.splits)
qed

lemma color_loop_ok:
  "loadFontAsync h Inter_Regular = Inr () \<Longrightarrow>
   \<exists>ns. fst (for_each (color_step h) cs w) = Inr ns"
  by (rule for_each_ok) (simp add: color_step_result)

lemma color_section_ok:
  assumes "loadFontAsync h Inter_Bold = Inr ()" and "loadFontAsync h Inter_Regular = Inr ()"
  shows "\<exists>sec w'. color_section h cs w = (Inr sec, w')"
proof -
  from color_loop_ok [OF assms(2), of cs w] obtain ns where
    "fst (for_each (color_step h) cs w) = Inr ns" by blast
  then show ?thesis
    using assms(1) by (auto simp: color_section_def make_title_def split: prod.splits)
qed

lemma color_section_shape:
  "color_section h cs w = (Inr sec, w') \<Longrightarrow>
   \<exists>wrappers. for_each (color_step h) cs w = (Inr wrappers, w') \<and>
     sec = Frame ''Color Palette'' (section_layout 16) []
             [title_node ''Color Styles'', Frame ''Colors'' row_layout [] wrappers]"
  by (auto simp: color_section_def make_title_def split: sum.splits prod.splits)




section \<open>Properties of the typography section\<close>

lemma push_text_keys:
  "map fst (push_text gs t) =
     (if group_key t \<in> set (map fst gs) then map fst gs else map fst gs @ [group_key t])"
  by (auto simp: push_text_def Let_def map_of_eq_None_iff comp_def case_prod_unfold
      intro!: map_idI)

lemma group_texts_snoc: "group_texts (ts @ [t]) = push_text (group_texts ts) t"
  by (simp add: group_texts_def)

lemma group_texts_keys_set: "set (map fst (group_texts ts)) = group_key ` set ts"
proof (induction ts rule: rev_induct)
  case Nil
  show ?case by (simp add: group_texts_def)
next
  case (snoc t ts)
  then show ?case
    by (auto simp: group_texts_snoc push_text_keys simp del: set_map)
qed


lemma group_texts_members:
  "(k, g) \<in> set (group_texts ts) \<Longrightarrow> g = filter (\<lambda>t. group_key t = k) ts \<and> g \<noteq> []"
proof (induction ts arbitrary: k g rule: rev_induct)
  case Nil
  then show ?case by (simp add: group_texts_def)
next
  case (snoc t ts)
  from snoc.prems obtain g0 where
    g0: "(k, g0) \<in> set (group_texts ts) \<or> (k = group_key t \<and> g0 = [] \<and> group_key t \<notin> fst ` set (group_texts ts))"
    and g: "g = (if k = group_key t then g0 @ [t] else g0)"
    by (fastforce simp: group_texts_snoc push_text_def Let_def map_of_eq_None_iff split: if_splits)
  from g0 show ?case
  proof
    assume "(k, g0) \<in> set (group_texts ts)"
    with snoc.IH g show ?thesis by auto
  next
    assume a: "k = group_key t \<and> g0 = [] \<and> group_key t \<notin> fst ` set (group_texts ts)"
    then have "group_key t \<notin> group_key ` set ts"
      using group_texts_keys_set [of ts] by simp
    then have "filter (\<lambda>u. group_key u = group_key t) ts = []"
      by (metis (mono_tags, lifting) filter_False image_eqI)
    with a g show ?thesis by simp
  qed
qed



lemma group_texts_empty: "group_texts ts = [] \<longleftrightarrow> ts = []"
  using group_texts_keys_set [of ts] by (cases ts) auto









lemma text_style_result:
  "fst (text_style h sample w) =
     (case getStyleByName w (text_style_name sample) of
        Some st \<Rightarrow> Inr (style_id st)
      | None \<Rightarrow>
          (case loadFontAsync h (sample_fontName sample) of
             Inl e \<Rightarrow> Inl e | Inr u \<Rightarrow> Inr (next_id w)))"
  by (auto simp: text_style_def createTextStyle_def register_style_def case_prod_unfold
      split: option.splits sum.splits)


lemma group_step_fst: "snd kg = sample # rest \<Longrightarrow>
   fst (group_step h kg w) =
     (case fst (text_style h sample w) of
        Inl e \<Rightarrow> Inl e
      | Inr sid \<Rightarrow>
          (case loadFontAsync h (sample_fontName sample) of
             Inl e \<Rightarrow> Inl e | Inr u \<Rightarrow> Inr [sample_node sample sid]))"
  by (auto simp: group_step_def split: prod.splits sum.splits)

lemma group_step_empty: "snd kg = [] \<Longrightarrow> group_step h kg w = (Inr [], w)"
  by (simp add: group_step_def)





lemma typography_loop_ok:
  assumes "\<forall>kg\<in>set gs. \<forall>t\<in>set (snd kg). loadFontAsync h (sample_fontName t) = Inr ()"
  shows "\<exists>ns. fst (for_each (group_step h) gs w) = Inr ns"
proof (rule for_each_ok)
  fix kg w0
  assume m: "kg \<in> set gs"
  show "\<exists>ns. fst (group_step h kg w0) = Inr ns"
  proof (cases "snd kg")
    case Nil
    then show ?thesis by (simp add: group_step_empty)
  next
    case (Cons sample rest)
    with assms m have "loadFontAsync h (sample_fontName sample) = Inr ()" by auto
    with Cons show ?thesis
      by (simp add: group_step_fst text_style_result split: option.splits)
  qed
qed


lemma typography_section_shape:
  "typography_section h ts w = (Inr sec, w') \<Longrightarrow>
   \<exists>samples. for_each (group_step h) (group_texts ts) w = (Inr samples, w') \<and>
     sec = Frame ''Typography'' (section_layout 16) [] (title_node ''Text Styles'' # samples)"
  by (auto simp: typography_section_def make_title_def split: sum.splits prod.splits)

lemma typography_section_ok:
  assumes "loadFontAsync h Inter_Bold = Inr ()"
    and "\<forall>t\<in>set ts. loadFontAsync h (sample_fontName t) = Inr ()"
  shows "\<exists>sec w'. typography_section h ts w = (Inr sec, w')"
proof -
  have "\<forall>kg\<in>set (group_texts ts). \<forall>t\<in>set (snd kg). loadFontAsync h (sample_fontName t) = Inr ()"
  proof (intro ballI)
    fix kg t assume kg: "kg \<in> set (group_texts ts)" and t: "t \<in> set (snd kg)"
    from kg group_texts_members [of "fst kg" "snd kg" ts] t have "t \<in> set ts" by auto
    with assms(2) show "loadFontAsync h (sample_fontName t) = Inr ()" by simp
  qed
  from typography_loop_ok [OF this, of w] obtain ns where
    "fst (for_each (group_step h) (group_texts ts) w) = Inr ns" by blast
  then show ?thesis
    using assms(1) by (auto simp: typography_section_def make_title_def split: prod.splits)
qed





section \<open>Properties of the parent frame\<close>

lemma optional_section_Inr:
  "optional_section present build w = (Inr secs, w') \<Longrightarrow>
   (present \<longrightarrow> (\<exists>sec. build w = (Inr sec, w') \<and> secs = [sec])) \<and>
   (\<not> present \<longrightarrow> secs = [] \<and> w' = w)"
  by (auto simp: optional_section_def split: if_splits sum.splits prod.splits)

lemma optional_section_ok:
  "(present \<Longrightarrow> \<exists>sec w'. build w = (Inr sec, w')) \<Longrightarrow>
   \<exists>secs w'. optional_section present build w = (Inr secs, w')"
  by (auto simp: optional_section_def split: if_splits sum.splits prod.splits)

lemma process_Inr:
  assumes "processImageAnalysisResults h d w = (Inr parent, w')"
  shows "\<exists>s1 w1 s2 w2 s3 w3.
     optional_section (length (colors d) > 0) (color_section h (colors d)) w = (Inr s1, w1) \<and>
     optional_section (length (typography d) > 0)
        (typography_section h (typography d)) w1 = (Inr s2, w2) \<and>
     optional_section (length (components d) > 0)
        (components_section h (components d)) w2 = (Inr s3, w3) \<and>
     parent = Frame ''Sticker Component Analysis'' parent_layout [parent_fill] (s1 @ s2 @ s3) \<and>
     w' = w3\<lparr>page := page w3 @ [parent], selection := [parent], viewport := [parent]\<rparr>"
  using assms
  by (auto simp: processImageAnalysisResults_def Let_def split: sum.splits prod.splits)

lemma process_ok:
  assumes "loadFontAsync h Inter_Bold = Inr ()" and "loadFontAsync h Inter_Regular = Inr ()"
    and "\<forall>t\<in>set (typography d). loadFontAsync h (sample_fontName t) = Inr ()"
  shows "\<exists>parent w'. processImageAnalysisResults h d w = (Inr parent, w')"
proof -
  from optional_section_ok [of "length (colors d) > 0" "color_section h (colors d)" w]
    color_section_ok [OF assms(1,2)]
  obtain s1 w1 where 1: "optional_section (length (colors d) > 0)
      (color_section h (colors d)) w = (Inr s1, w1)" by blast
  from optional_section_ok [of "length (typography d) > 0"
      "typography_section h (typography d)" w1]
    typography_section_ok [OF assms(1,3)]
  obtain s2 w2 where 2: "optional_section (length (typography d) > 0)
      (typography_section h (typography d)) w1 = (Inr s2, w2)" by blast
  from optional_section_ok [of "length (components d) > 0"
      "components_section h (components d)" w2]
    components_section_ok [OF assms(1)]
  obtain s3 w3 where 3: "optional_section (length (components d) > 0)
      (components_section h (components d)) w2 = (Inr s3, w3)" by blast
  from 1 2 3 show ?thesis
    by (simp add: processImageAnalysisResults_def Let_def)
qed


lemma components_section_shape:
  "components_section h cs w = (Inr sec, w') \<Longrightarrow>
   sec = Frame ''Components'' (section_layout 24) []
           (title_node ''UI Components'' # fst (build_components h cs w)) \<and>
   w' = snd (build_components h cs w)"
  by (auto simp: components_section_def make_title_def split: sum.splits prod.splits)

text \<open>
  C1. The run returns the parent frame whenever the fonts it asks for load. The
  children of the returned frame are, in this order and with nothing else: the
  \<open>Color Palette\<close> section exactly when there is a colour, the \<open>Typography\<close>
  section exactly when there is a text group, the \<open>Components\<close> section exactly
  when there is a component; the first child of each section is its title, a text node
  in Inter Bold.
\<close>

theorem sections_follow_inputs_in_fixed_order:
  "(loadFontAsync h Inter_Bold = Inr () \<and> loadFontAsync h Inter_Regular = Inr () \<and>
    (\<forall>t\<in>set (typography d). loadFontAsync h (sample_fontName t) = Inr ()) \<longrightarrow>
      (\<exists>parent w'. processImageAnalysisResults h d w = (Inr parent, w'))) \<and>
   (\<forall>parent w'. processImageAnalysisResults h d w = (Inr parent, w') \<longrightarrow>
      (\<exists>wrappers samples built.
         frame_children parent =
           (if 0 < length (colors d)
            then [Frame ''Color Palette'' (section_layout 16) []
                    [Text (Some Inter_Bold) ''Color Styles'' 16 None None,
                     Frame ''Colors'' row_layout [] wrappers]]
            else []) @
           (if 0 < length (group_texts (typography d))
            then [Frame ''Typography'' (section_layout 16) []
                    (Text (Some Inter_Bold) ''Text Styles'' 16 None None # samples)]
            else []) @
           (if 0 < length (components d)
            then [Frame ''Components'' (section_layout 24) []
                    (Text (Some Inter_Bold) ''UI Components'' 16 None None # built)]
            else [])) \<and>
      map frame_name (frame_children parent) =
        (if 0 < length (colors d) then [''Color Palette''] else []) @
        (if 0 < length (group_texts (typography d)) then [''Typography''] else []) @
        (if 0 < length (components d) then [''Components''] else []))"
proof (intro conjI allI impI)
  assume "loadFontAsync h Inter_Bold = Inr () \<and> loadFontAsync h Inter_Regular = Inr () \<and>
    (\<forall>t\<in>set (typography d). loadFontAsync h (sample_fontName t) = Inr ())"
  then show "\<exists>parent w'. processImageAnalysisResults h d w = (Inr parent, w')"
    using process_ok by blast
next
  fix parent w'
  assume a: "processImageAnalysisResults h d w = (Inr parent, w')"
  from process_Inr [OF a] obtain s1 w1 s2 w2 s3 w3 where
    o1: "optional_section (length (colors d) > 0) (color_section h (colors d)) w = (Inr s1, w1)"
    and o2: "optional_section (length (typography d) > 0)
        (typography_section h (typography d)) w1 = (Inr s2, w2)"
    and o3: "optional_section (length (components d) > 0)
        (components_section h (components d)) w2 = (Inr s3, w3)"
    and p: "parent = Frame ''Sticker Component Analysis'' parent_layout [parent_fill] (s1 @ s2 @ s3)"
    by blast
  have g: "0 < length (group_texts (typography d)) \<longleftrightarrow> 0 < length (typography d)"
    using group_texts_empty [of "typography d"] by auto
  from optional_section_Inr [OF o1] obtain wrappers where
    1: "s1 = (if 0 < length (colors d)
            then [Frame ''Color Palette'' (section_layout 16) []
                    [Text (Some Inter_Bold) ''Color Styles'' 16 None None,
                     Frame ''Colors'' row_layout [] wrappers]]
            else [])"
    using color_section_shape [of h "colors d" w _ w1]
    by (cases "0 < length (colors d)") (auto simp: title_node_def)
  from optional_section_Inr [OF o2] obtain samples where
    2: "s2 = (if 0 < length (group_texts (typography d))
            then [Frame ''Typography'' (section_layout 16) []
                    (Text (Some Inter_Bold) ''Text Styles'' 16 None None # samples)]
            else [])"
    using typography_section_shape [of h "typography d" w1 _ w2] g
    by (cases "0 < length (typography d)") (auto simp: title_node_def)
  from optional_section_Inr [OF o3] obtain built where
    3: "s3 = (if 0 < length (components d)
            then [Frame ''Components'' (section_layout 24) []
                    (Text (Some Inter_Bold) ''UI Components'' 16 None None # built)]
            else [])"
    using components_section_shape [of h "components d" w2 _ w3]
    by (cases "0 < length (components d)") (auto simp: title_node_def)
  from p 1 2 3 show "\<exists>wrappers samples built.
         frame_children parent =
           (if 0 < length (colors d)
            then [Frame ''Color Palette'' (section_layout 16) []
                    [Text (Some Inter_Bold) ''Color Styles'' 16 None None,
                     Frame ''Colors'' row_layout [] wrappers]]
            else []) @
           (if 0 < length (group_texts (typography d))
            then [Frame ''Typography'' (section_layout 16) []
                    (Text (Some Inter_Bold) ''Text Styles'' 16 None None # samples)]
            else []) @
           (if 0 < length (components d)
            then [Frame ''Components'' (section_layout 24) []
                    (Text (Some Inter_Bold) ''UI Components'' 16 None None # built)]
            else [])"
    by (intro exI [of _ wrappers] exI [of _ samples] exI [of _ built]) simp
  from p 1 2 3 show "map frame_name (frame_children parent) =
        (if 0 < length (colors d) then [''Color Palette''] else []) @
        (if 0 < length (group_texts (typography d)) then [''Typography''] else []) @
        (if 0 < length (components d) then [''Components''] else [])"
    by simp
qed

text \<open>Three colours, no text, three components: a palette and a components section.\<close>

theorem sections_follow_inputs_in_fixed_order_witness:
  "\<exists>parent w'. processImageAnalysisResults demo_host demo_analysis empty_world = (Inr parent, w') \<and>
     map frame_name (frame_children parent) = [''Color Palette'', ''Components'']"
proof -
  have f: "loadFontAsync demo_host Inter_Bold = Inr () \<and>
    loadFontAsync demo_host Inter_Regular = Inr () \<and>
    (\<forall>t\<in>set (typography demo_analysis). loadFontAsync demo_host (sample_fontName t) = Inr ())"
    by (simp add: demo_host_def)
  note t = sections_follow_inputs_in_fixed_order [of demo_host demo_analysis empty_world]
  from t f obtain parent w' where
    r: "processImageAnalysisResults demo_host demo_analysis empty_world = (Inr parent, w')"
    by blast
  with t have "map frame_name (frame_children parent) =
        (if 0 < length (colors demo_analysis) then [''Color Palette''] else []) @
        (if 0 < length (group_texts (typography demo_analysis)) then [''Typography''] else []) @
        (if 0 < length (components demo_analysis) then [''Components''] else [])"
    by blast
  then have "map frame_name (frame_children parent) = [''Color Palette'', ''Components'']"
    by (simp add: demo_analysis_def three_colors_def btn_btn_card_def group_texts_def)
  with r show ?thesis by (intro exI [of _ parent] exI [of _ w'] conjI)
qed

text \<open>
  C4. When the heuristic fires and the variant-set builder throws, the error is
  written to the console and the loop over the components runs: from any state the
  section gets one child per component, the built node or its fallback, after the one
  call to the variant-set builder and one call to the component builder per element.
  Nothing in this part can abort the run: whenever the fonts load, the parent frame is
  returned and its last child is the components section with these children.
\<close>

theorem variant_failure_demotes_to_independent_build:
  assumes "variant_heuristic (components d)"
    and "createComponentSet h (components d) = Inl err"
  shows "\<exists>built.
     length built = length (components d) \<and>
     (\<forall>i<length (components d).
        built ! i =
          (case createSystemComponent h (components d ! i) of
             Inr component \<Rightarrow> component
           | Inl e \<Rightarrow> fallbackComponent (components d ! i) i)) \<and>
     (\<forall>w0. fst (build_components h (components d) w0) = built \<and>
        calls (snd (build_components h (components d) w0)) =
          calls w0 @ CreateComponentSet (components d) #
            map CreateSystemComponent (components d) \<and>
        ConsoleError ''Error creating component variants:'' err
          \<in> set (console (snd (build_components h (components d) w0)))) \<and>
     (loadFontAsync h Inter_Bold = Inr () \<and> loadFontAsync h Inter_Regular = Inr () \<and>
      (\<forall>t\<in>set (typography d). loadFontAsync h (sample_fontName t) = Inr ()) \<longrightarrow>
        (\<exists>parent w'. processImageAnalysisResults h d w = (Inr parent, w') \<and>
           last (frame_children parent) =
             Frame ''Components'' (section_layout 24) []
               (title_node ''UI Components'' # built) \<and>
           ConsoleError ''Error creating component variants:'' err \<in> set (console w')))"
proof -
  let ?cs = "components d"
  let ?built = "independent_children h ?cs"
  have i: "variant_heuristic ?cs \<longrightarrow> isl (createComponentSet h ?cs)"
    using assms(2) by simp
  have b: "\<And>w0. fst (build_components h ?cs w0) = ?built"
    using build_components_independent [OF i] .
  have c: "\<And>w0. calls (snd (build_components h ?cs w0)) =
          calls w0 @ CreateComponentSet ?cs # map CreateSystemComponent ?cs"
    using assms by (simp add: build_components_calls)
  have e: "\<And>w0. ConsoleError ''Error creating component variants:'' err
          \<in> set (console (snd (build_components h ?cs w0)))"
    using assms by (simp add: build_components_def build_each_result Let_def)
  have n: "\<forall>i<length ?cs. ?built ! i =
          (case createSystemComponent h (?cs ! i) of
             Inr component \<Rightarrow> component
           | Inl e \<Rightarrow> fallbackComponent (?cs ! i) i)"
    by (simp add: independent_children_nth)
  have ne: "0 < length ?cs"
    using assms(1) by (auto simp: variant_heuristic_def)
  have run: "loadFontAsync h Inter_Bold = Inr () \<and> loadFontAsync h Inter_Regular = Inr () \<and>
      (\<forall>t\<in>set (typography d). loadFontAsync h (sample_fontName t) = Inr ()) \<longrightarrow>
        (\<exists>parent w'. processImageAnalysisResults h d w = (Inr parent, w') \<and>
           last (frame_children parent) =
             Frame ''Components'' (section_layout 24) []
               (title_node ''UI Components'' # ?built) \<and>
           ConsoleError ''Error creating component variants:'' err \<in> set (console w'))"
  proof
    assume f: "loadFontAsync h Inter_Bold = Inr () \<and> loadFontAsync h Inter_Regular = Inr () \<and>
      (\<forall>t\<in>set (typography d). loadFontAsync h (sample_fontName t) = Inr ())"
    with process_ok [of h d w] obtain parent w' where
      r: "processImageAnalysisResults h d w = (Inr parent, w')" by blast
    from process_Inr [OF r] obtain s1 w1 s2 w2 s3 w3 where
      o3: "optional_section (length ?cs > 0) (components_section h ?cs) w2 = (Inr s3, w3)"
      and p: "parent = Frame ''Sticker Component Analysis'' parent_layout [parent_fill] (s1 @ s2 @ s3)"
      and w': "w' = w3\<lparr>page := page w3 @ [parent], selection := [parent], viewport := [parent]\<rparr>"
      by blast
    from optional_section_Inr [OF o3] ne obtain sec where
      s: "components_section h ?cs w2 = (Inr sec, w3)" "s3 = [sec]" by blast
    from components_section_shape [OF s(1)] b [of w2]
    have sec: "sec = Frame ''Components'' (section_layout 24) []
                 (title_node ''UI Components'' # ?built)"
      and w3: "w3 = snd (build_components h ?cs w2)"
      by simp_all
    from p s(2) sec have "last (frame_children parent) =
             Frame ''Components'' (section_layout 24) []
               (title_node ''UI Components'' # ?built)"
      by simp
    moreover from w' w3 e [of w2] have
      "ConsoleError ''Error creating component variants:'' err \<in> set (console w')"
      by simp
    ultimately show "\<exists>parent w'. processImageAnalysisResults h d w = (Inr parent, w') \<and>
           last (frame_children parent) =
             Frame ''Components'' (section_layout 24) []
               (title_node ''UI Components'' # ?built) \<and>
           ConsoleError ''Error creating component variants:'' err \<in> set (console w')"
      using r by blast
  qed
  from independent_children_length [of h ?cs] n b c e run show ?thesis
    by (intro exI [of _ ?built]) blast
qed

text \<open>
  \<open>Btn, Btn, Card\<close> on the host whose variant-set builder fails: the three
  components are built one by one and the error is in the console.
\<close>

theorem variant_failure_demotes_to_independent_build_witness:
  "variant_heuristic (components demo_analysis) \<and>
   createComponentSet demo_host (components demo_analysis) = Inl ''variants failed'' \<and>
   (\<exists>parent w'. processImageAnalysisResults demo_host demo_analysis empty_world = (Inr parent, w') \<and>
      last (frame_children parent) =
        Frame ''Components'' (section_layout 24) []
          [title_node ''UI Components'', Component ''a'' 120 40 None,
           Component ''b'' 120 40 None, Component ''c'' 120 40 None] \<and>
      ConsoleError ''Error creating component variants:'' ''variants failed'' \<in> set (console w'))"
proof -
  have v: "variant_heuristic (components demo_analysis)"
    by (simp add: variant_heuristic_def demo_analysis_def btn_btn_card_def demo_component_def)
  have c: "createComponentSet demo_host (components demo_analysis) = Inl ''variants failed''"
    by (simp add: demo_host_def)
  have f: "loadFontAsync demo_host Inter_Bold = Inr () \<and>
    loadFontAsync demo_host Inter_Regular = Inr () \<and>
    (\<forall>t\<in>set (typography demo_analysis). loadFontAsync demo_host (sample_fontName t) = Inr ())"
    by (simp add: demo_host_def)
  from variant_failure_demotes_to_independent_build [OF v c, of empty_world] f
  obtain built parent w' where
    l: "length built = length (components demo_analysis)"
    and n: "\<forall>i<length (components demo_analysis).
        built ! i =
          (case createSystemComponent demo_host (components demo_analysis ! i) of
             Inr component \<Rightarrow> component
           | Inl e \<Rightarrow> fallbackComponent (components demo_analysis ! i) i)"
    and r: "processImageAnalysisResults demo_host demo_analysis empty_world = (Inr parent, w')"
    and s: "last (frame_children parent) =
             Frame ''Components'' (section_layout 24) []
               (title_node ''UI Components'' # built)"
    and e: "ConsoleError ''Error creating component variants:'' ''variants failed'' \<in> set (console w')"
    by blast
  have l3: "length (components demo_analysis) = 3"
    by (simp add: demo_analysis_def btn_btn_card_def)
  from l l3 obtain n0 n1 n2 where "built = [n0, n1, n2]"
    by (auto simp: length_Suc_conv numeral_3_eq_3)
  then have "built = [built ! 0, built ! 1, built ! 2]"
    by simp
  moreover have "built ! 0 = Component ''a'' 120 40 None"
    using n [rule_format, of 0] l3
    by (simp add: demo_analysis_def btn_btn_card_def demo_host_def demo_component_def)
  moreover have "built ! 1 = Component ''b'' 120 40 None"
    using n [rule_format, of 1] l3
    by (simp add: demo_analysis_def btn_btn_card_def demo_host_def demo_component_def)
  moreover have "built ! 2 = Component ''c'' 120 40 None"
    using n [rule_format, of 2] l3
    by (simp add: demo_analysis_def btn_btn_card_def demo_host_def demo_component_def)
  ultimately have "built = [Component ''a'' 120 40 None, Component ''b'' 120 40 None,
      Component ''c'' 120 40 None]"
    by simp
  with s have "last (frame_children parent) =
        Frame ''Components'' (section_layout 24) []
          [title_node ''UI Components'', Component ''a'' 120 40 None,
           Component ''b'' 120 40 None, Component ''c'' 120 40 None]"
    by simp
  with v c r e show ?thesis
    by (intro conjI exI [of _ parent] exI [of _ w'])
qed

end
